theory Spec2Isabelle
  imports Main "HOL-Library.Word"
begin

unbundle bit_operations_syntax

section \<open>The HD44780 character LCD driver over a PCF8574 I2C expander (LCD.c, LCD.h)\<close>

text \<open>
  A shallow embedding of \<^verbatim>\<open>src/LCD.c\<close>. The two file-scope variables of the driver
  (\<^verbatim>\<open>hi2c_lcd\<close>, \<^verbatim>\<open>lcd_addr\<close>) are the fields of a state record that every function
  takes and returns. The two HAL primitives the driver calls, \<^verbatim>\<open>HAL_I2C_Master_Transmit\<close>
  and \<^verbatim>\<open>HAL_Delay\<close>, belong to the vendor library; each call is recorded, in order, in a
  trace kept in the same record, so that the bus traffic of an operation is the part of the
  trace it appends.
\<close>

subsection \<open>Types and constants of LCD.h\<close>

type_synonym uint8_t = "8 word"
type_synonym int32_t = "32 word"

text \<open>A pointer to an I2C handle: \<open>None\<close> is the null pointer.\<close>

type_synonym I2C_HandleTypeDef_ptr = "nat option"

abbreviation NULL :: "'a option" where
  "NULL \<equiv> None"

datatype LCD_StatusTypeDef =
  LCD_OK | LCD_ERROR | LCD_NOT_INITIALIZED | LCD_BUSY | LCD_TIMEOUT

definition LCD_CLEAR_DISPLAY :: uint8_t where [simp]: "LCD_CLEAR_DISPLAY = 0x01"
definition LCD_RETURN_HOME :: uint8_t where [simp]: "LCD_RETURN_HOME = 0x02"
definition LCD_ENTRY_MODE_SET :: uint8_t where [simp]: "LCD_ENTRY_MODE_SET = 0x04"
definition LCD_DISPLAY_CONTROL :: uint8_t where [simp]: "LCD_DISPLAY_CONTROL = 0x08"
definition LCD_CURSOR_SHIFT :: uint8_t where [simp]: "LCD_CURSOR_SHIFT = 0x10"
definition LCD_FUNCTION_SET :: uint8_t where [simp]: "LCD_FUNCTION_SET = 0x20"
definition LCD_SET_CGRAM_ADDR :: uint8_t where [simp]: "LCD_SET_CGRAM_ADDR = 0x40"
definition LCD_SET_DDRAM_ADDR :: uint8_t where [simp]: "LCD_SET_DDRAM_ADDR = 0x80"

definition LCD_ENTRY_LEFT :: uint8_t where [simp]: "LCD_ENTRY_LEFT = 0x02"

definition LCD_DISPLAY_ON :: uint8_t where [simp]: "LCD_DISPLAY_ON = 0x04"
definition LCD_CURSOR_ON :: uint8_t where [simp]: "LCD_CURSOR_ON = 0x02"
definition LCD_BLINK_ON :: uint8_t where [simp]: "LCD_BLINK_ON = 0x01"

definition LCD_DISPLAY_MOVE :: uint8_t where [simp]: "LCD_DISPLAY_MOVE = 0x08"
definition LCD_MOVE_RIGHT :: uint8_t where [simp]: "LCD_MOVE_RIGHT = 0x04"
definition LCD_MOVE_LEFT :: uint8_t where [simp]: "LCD_MOVE_LEFT = 0x00"

definition LCD_4BIT_MODE :: uint8_t where [simp]: "LCD_4BIT_MODE = 0x00"
definition LCD_2LINE :: uint8_t where [simp]: "LCD_2LINE = 0x08"
definition LCD_5x8DOTS :: uint8_t where [simp]: "LCD_5x8DOTS = 0x00"

definition LCD_RS :: uint8_t where [simp]: "LCD_RS = 0x01"
definition LCD_RW :: uint8_t where [simp]: "LCD_RW = 0x02"
definition LCD_EN :: uint8_t where [simp]: "LCD_EN = 0x04"
definition LCD_BACKLIGHT :: uint8_t where [simp]: "LCD_BACKLIGHT = 0x08"

subsection \<open>Driver state and the HAL primitives\<close>

text \<open>
  One event per HAL call: \<open>Tx h a b\<close> is \<^verbatim>\<open>HAL_I2C_Master_Transmit(h, a, &b, 1, 10)\<close>
  (every transmit of the driver sends one byte with a 10 ms timeout), \<open>Delay ms\<close> is
  \<^verbatim>\<open>HAL_Delay(ms)\<close>. The driver ignores the status \<^verbatim>\<open>HAL_I2C_Master_Transmit\<close> returns.
\<close>

datatype hal_event =
  Tx I2C_HandleTypeDef_ptr uint8_t uint8_t
| Delay nat

record lcd_state =
  hi2c_lcd :: I2C_HandleTypeDef_ptr
  lcd_addr :: uint8_t
  trace :: "hal_event list"

text \<open>The state at program start: the initialisers of the two static variables.\<close>

definition lcd_state0 :: lcd_state where
  "lcd_state0 = \<lparr> hi2c_lcd = NULL, lcd_addr = push_bit 1 0x27, trace = [] \<rparr>"

definition HAL_Delay :: "nat \<Rightarrow> lcd_state \<Rightarrow> lcd_state" where
  "HAL_Delay ms s = s\<lparr> trace := trace s @ [Delay ms] \<rparr>"

definition HAL_I2C_Master_Transmit ::
  "I2C_HandleTypeDef_ptr \<Rightarrow> uint8_t \<Rightarrow> uint8_t \<Rightarrow> lcd_state \<Rightarrow> lcd_state" where
  "HAL_I2C_Master_Transmit h a b s = s\<lparr> trace := trace s @ [Tx h a b] \<rparr>"

text \<open>The packet bytes of the bus-write transactions of a trace, in order.\<close>

fun tx_bytes :: "hal_event list \<Rightarrow> uint8_t list" where
  "tx_bytes [] = []"
| "tx_bytes (Tx h a b # es) = b # tx_bytes es"
| "tx_bytes (Delay ms # es) = tx_bytes es"

subsection \<open>Private helpers of LCD.c\<close>

definition LCD_WriteNibble :: "uint8_t \<Rightarrow> uint8_t \<Rightarrow> lcd_state \<Rightarrow> lcd_state" where
  "LCD_WriteNibble data rs s =
    (let packet = data;
         packet = (if rs \<noteq> 0 then packet OR LCD_RS else packet);
         packet = packet OR LCD_BACKLIGHT;
         packet = packet OR LCD_EN;
         s = HAL_I2C_Master_Transmit (hi2c_lcd s) (lcd_addr s) packet s;
         s = HAL_Delay 1 s;
         packet = packet AND NOT LCD_EN;
         s = HAL_I2C_Master_Transmit (hi2c_lcd s) (lcd_addr s) packet s;
         s = HAL_Delay 1 s
     in s)"

definition LCD_WriteByte :: "uint8_t \<Rightarrow> uint8_t \<Rightarrow> lcd_state \<Rightarrow> lcd_state" where
  "LCD_WriteByte data rs s =
    (let s = LCD_WriteNibble (data AND 0xF0) rs s;
         s = LCD_WriteNibble (push_bit 4 data AND 0xF0) rs s
     in s)"

definition LCD_WriteCommand :: "uint8_t \<Rightarrow> lcd_state \<Rightarrow> lcd_state" where
  "LCD_WriteCommand cmd s = LCD_WriteByte cmd 0 s"

definition LCD_WriteData :: "uint8_t \<Rightarrow> lcd_state \<Rightarrow> lcd_state" where
  "LCD_WriteData data s = LCD_WriteByte data 1 s"

text \<open>\<^verbatim>\<open>LCD_PulseEnable\<close> is static and no function of LCD.c calls it.\<close>

definition LCD_PulseEnable :: "uint8_t \<Rightarrow> lcd_state \<Rightarrow> lcd_state" where
  "LCD_PulseEnable data s =
    (let s = HAL_I2C_Master_Transmit (hi2c_lcd s) (lcd_addr s) data s;
         s = HAL_Delay 1 s;
         data = data OR LCD_EN;
         s = HAL_I2C_Master_Transmit (hi2c_lcd s) (lcd_addr s) data s;
         s = HAL_Delay 1 s;
         data = data AND NOT LCD_EN;
         s = HAL_I2C_Master_Transmit (hi2c_lcd s) (lcd_addr s) data s;
         s = HAL_Delay 1 s
     in s)"

subsection \<open>Public operations of LCD.c\<close>

definition LCD_Init :: "I2C_HandleTypeDef_ptr \<Rightarrow> lcd_state \<Rightarrow> LCD_StatusTypeDef \<times> lcd_state" where
  "LCD_Init hi2c s =
    (if hi2c = NULL then (LCD_ERROR, s)
     else
       let s = s\<lparr> hi2c_lcd := hi2c \<rparr>;
           s = HAL_Delay 50 s;
           s = LCD_WriteNibble (push_bit 4 0x03) 0 s;
           s = HAL_Delay 5 s;
           s = LCD_WriteNibble (push_bit 4 0x03) 0 s;
           s = HAL_Delay 1 s;
           s = LCD_WriteNibble (push_bit 4 0x03) 0 s;
           s = HAL_Delay 1 s;
           s = LCD_WriteNibble (push_bit 4 0x02) 0 s;
           s = HAL_Delay 1 s;
           s = LCD_WriteCommand (LCD_FUNCTION_SET OR LCD_4BIT_MODE OR LCD_2LINE OR LCD_5x8DOTS) s;
           s = HAL_Delay 1 s;
           s = LCD_WriteCommand LCD_DISPLAY_CONTROL s;
           s = HAL_Delay 1 s;
           s = LCD_WriteCommand LCD_CLEAR_DISPLAY s;
           s = HAL_Delay 2 s;
           s = LCD_WriteCommand (LCD_ENTRY_MODE_SET OR LCD_ENTRY_LEFT) s;
           s = HAL_Delay 1 s;
           s = LCD_WriteCommand (LCD_DISPLAY_CONTROL OR LCD_DISPLAY_ON) s;
           s = HAL_Delay 1 s
       in (LCD_OK, s))"

definition LCD_Clear :: "lcd_state \<Rightarrow> LCD_StatusTypeDef \<times> lcd_state" where
  "LCD_Clear s =
    (if hi2c_lcd s = NULL then (LCD_NOT_INITIALIZED, s)
     else
       let s = LCD_WriteCommand LCD_CLEAR_DISPLAY s;
           s = HAL_Delay 2 s
       in (LCD_OK, s))"

definition row_offsets :: "uint8_t list" where
  "row_offsets = [0x00, 0x40, 0x14, 0x54]"

definition LCD_SetCursor :: "uint8_t \<Rightarrow> uint8_t \<Rightarrow> lcd_state \<Rightarrow> LCD_StatusTypeDef \<times> lcd_state" where
  "LCD_SetCursor row col s =
    (if hi2c_lcd s = NULL then (LCD_NOT_INITIALIZED, s)
     else
       let row = (if row \<ge> 4 then 3 else row);
           col = (if col \<ge> 20 then 19 else col);
           s = LCD_WriteCommand (LCD_SET_DDRAM_ADDR OR (col + row_offsets ! unat row)) s
       in (LCD_OK, s))"

text \<open>
  A C string is the list of the characters stored from the pointer on. The loop
  \<^verbatim>\<open>while (*str) LCD_WriteData(*str++)\<close> stops at the first NUL character; the end of the
  list stands for the terminating NUL of a string that holds none before it.
\<close>

fun LCD_PrintString_loop :: "string \<Rightarrow> lcd_state \<Rightarrow> lcd_state" where
  "LCD_PrintString_loop [] s = s"
| "LCD_PrintString_loop (c # str) s =
    (if c = CHR 0x00 then s else LCD_PrintString_loop str (LCD_WriteData (of_char c) s))"

definition LCD_PrintString :: "string option \<Rightarrow> lcd_state \<Rightarrow> LCD_StatusTypeDef \<times> lcd_state" where
  "LCD_PrintString str s =
    (if hi2c_lcd s = NULL then (LCD_NOT_INITIALIZED, s)
     else case str of
       None \<Rightarrow> (LCD_ERROR, s)
     | Some cs \<Rightarrow> (LCD_OK, LCD_PrintString_loop cs s))"

text \<open>
  Modelled from the spec: \<^verbatim>\<open>itoa\<close> is the C library's, not a function of this repository.
  The spec says of \<^verbatim>\<open>PrintInt\<close> that it "converts a signed integer to its decimal text
  representation (including a leading minus sign for negative values)"; the driver calls it
  with base 10 only. \<open>utoa\<close> writes the decimal digits of an unsigned magnitude, most
  significant first.
\<close>

function utoa :: "nat \<Rightarrow> string" where
  "utoa n = (if n < 10 then [char_of (48 + n)] else utoa (n div 10) @ [char_of (48 + n mod 10)])"
  by pat_completeness auto
termination
  by (relation "measure id") auto

declare utoa.simps [simp del]

definition itoa :: "int32_t \<Rightarrow> string" where
  "itoa num = (if sint num < 0 then CHR ''-'' # utoa (nat (- sint num)) else utoa (nat (sint num)))"

definition LCD_PrintInt :: "int32_t \<Rightarrow> lcd_state \<Rightarrow> LCD_StatusTypeDef \<times> lcd_state" where
  "LCD_PrintInt num s =
    (if hi2c_lcd s = NULL then (LCD_NOT_INITIALIZED, s)
     else
       let buffer = itoa num
       in LCD_PrintString (Some buffer) s)"

text \<open>
  \<^verbatim>\<open>LCD_PrintFloat\<close> formats with two \<^verbatim>\<open>sprintf\<close> calls of the C library. Their combined
  effect, the text of \<^verbatim>\<open>num\<close> in \<^verbatim>\<open>%.<decimals>f\<close> format, is the parameter \<open>fmt\<close>, and
  the type of floating-point values is the type variable \<open>'f\<close>. The text goes to
  \<^verbatim>\<open>char buffer[20]\<close>: one of 20 or more characters overruns the buffer, which is undefined
  behaviour in C and the result \<open>None\<close> here.
\<close>

definition LCD_PrintFloat ::
  "(uint8_t \<Rightarrow> 'f \<Rightarrow> string) \<Rightarrow> 'f \<Rightarrow> uint8_t \<Rightarrow> lcd_state \<Rightarrow> (LCD_StatusTypeDef \<times> lcd_state) option" where
  "LCD_PrintFloat fmt num decimals s =
    (if hi2c_lcd s = NULL then Some (LCD_NOT_INITIALIZED, s)
     else
       let decimals = (if decimals > 6 then 6 else decimals);
           buffer = fmt decimals num
       in if length buffer \<ge> 20 then None
          else Some (LCD_PrintString (Some buffer) s))"

text \<open>
  The loop \<^verbatim>\<open>for (int i = 0; i < 8; i++) LCD_WriteData(charmap[i])\<close>. \<open>charmap\<close> is the
  list of the bytes stored from the pointer on; the header asks for an 8-byte array.
\<close>

function LCD_CreateChar_loop :: "nat \<Rightarrow> uint8_t list \<Rightarrow> lcd_state \<Rightarrow> lcd_state" where
  "LCD_CreateChar_loop i charmap s =
    (if i < 8 then LCD_CreateChar_loop (i + 1) charmap (LCD_WriteData (charmap ! i) s) else s)"
  by pat_completeness auto
termination
  by (relation "measure (\<lambda>(i, charmap, s). 8 - i)") auto

declare LCD_CreateChar_loop.simps [simp del]

definition LCD_CreateChar ::
  "uint8_t \<Rightarrow> uint8_t list \<Rightarrow> lcd_state \<Rightarrow> LCD_StatusTypeDef \<times> lcd_state" where
  "LCD_CreateChar location charmap s =
    (if hi2c_lcd s = NULL then (LCD_NOT_INITIALIZED, s)
     else if location > 7 then (LCD_ERROR, s)
     else
       let s = LCD_WriteCommand (LCD_SET_CGRAM_ADDR OR push_bit 3 location) s;
           s = LCD_CreateChar_loop 0 charmap s
       in (LCD_OK, s))"

definition LCD_WriteChar :: "uint8_t \<Rightarrow> lcd_state \<Rightarrow> LCD_StatusTypeDef \<times> lcd_state" where
  "LCD_WriteChar location s =
    (if hi2c_lcd s = NULL then (LCD_NOT_INITIALIZED, s)
     else if location > 7 then (LCD_ERROR, s)
     else (LCD_OK, LCD_WriteData location s))"

definition LCD_Display :: "uint8_t \<Rightarrow> lcd_state \<Rightarrow> LCD_StatusTypeDef \<times> lcd_state" where
  "LCD_Display state s =
    (if hi2c_lcd s = NULL then (LCD_NOT_INITIALIZED, s)
     else if state \<noteq> 0 then (LCD_OK, LCD_WriteCommand (LCD_DISPLAY_CONTROL OR LCD_DISPLAY_ON) s)
     else (LCD_OK, LCD_WriteCommand LCD_DISPLAY_CONTROL s))"

definition LCD_Cursor :: "uint8_t \<Rightarrow> lcd_state \<Rightarrow> LCD_StatusTypeDef \<times> lcd_state" where
  "LCD_Cursor state s =
    (if hi2c_lcd s = NULL then (LCD_NOT_INITIALIZED, s)
     else
       let command = LCD_DISPLAY_CONTROL OR LCD_DISPLAY_ON;
           command = (if state \<noteq> 0 then command OR LCD_CURSOR_ON else command)
       in (LCD_OK, LCD_WriteCommand command s))"

definition LCD_Blink :: "uint8_t \<Rightarrow> lcd_state \<Rightarrow> LCD_StatusTypeDef \<times> lcd_state" where
  "LCD_Blink state s =
    (if hi2c_lcd s = NULL then (LCD_NOT_INITIALIZED, s)
     else
       let command = LCD_DISPLAY_CONTROL OR LCD_DISPLAY_ON;
           command = (if state \<noteq> 0 then command OR LCD_BLINK_ON else command)
       in (LCD_OK, LCD_WriteCommand command s))"

definition LCD_SetAddress :: "uint8_t \<Rightarrow> lcd_state \<Rightarrow> LCD_StatusTypeDef \<times> lcd_state" where
  "LCD_SetAddress address s = (LCD_OK, s\<lparr> lcd_addr := address \<rparr>)"

definition LCD_ScrollLeft :: "lcd_state \<Rightarrow> LCD_StatusTypeDef \<times> lcd_state" where
  "LCD_ScrollLeft s =
    (if hi2c_lcd s = NULL then (LCD_NOT_INITIALIZED, s)
     else (LCD_OK, LCD_WriteCommand (LCD_CURSOR_SHIFT OR LCD_DISPLAY_MOVE OR LCD_MOVE_LEFT) s))"

definition LCD_ScrollRight :: "lcd_state \<Rightarrow> LCD_StatusTypeDef \<times> lcd_state" where
  "LCD_ScrollRight s =
    (if hi2c_lcd s = NULL then (LCD_NOT_INITIALIZED, s)
     else (LCD_OK, LCD_WriteCommand (LCD_CURSOR_SHIFT OR LCD_DISPLAY_MOVE OR LCD_MOVE_RIGHT) s))"

definition LCD_Home :: "lcd_state \<Rightarrow> LCD_StatusTypeDef \<times> lcd_state" where
  "LCD_Home s =
    (if hi2c_lcd s = NULL then (LCD_NOT_INITIALIZED, s)
     else
       let s = LCD_WriteCommand LCD_RETURN_HOME s;
           s = HAL_Delay 2 s
       in (LCD_OK, s))"

subsection \<open>The public operation surface\<close>

text \<open>
  One constructor per public function that LCD.c defines, with its arguments, and the
  function that runs a call. \<^verbatim>\<open>LCD_Printf\<close> is declared in LCD.h and defined nowhere.
\<close>

datatype 'f lcd_call =
  Call_Init I2C_HandleTypeDef_ptr
| Call_Clear
| Call_SetCursor uint8_t uint8_t
| Call_PrintString "string option"
| Call_PrintInt int32_t
| Call_PrintFloat 'f uint8_t
| Call_CreateChar uint8_t "uint8_t list"
| Call_WriteChar uint8_t
| Call_Display uint8_t
| Call_Cursor uint8_t
| Call_Blink uint8_t
| Call_SetAddress uint8_t
| Call_ScrollLeft
| Call_ScrollRight
| Call_Home

fun lcd_run ::
  "(uint8_t \<Rightarrow> 'f \<Rightarrow> string) \<Rightarrow> 'f lcd_call \<Rightarrow> lcd_state \<Rightarrow> (LCD_StatusTypeDef \<times> lcd_state) option" where
  "lcd_run fmt (Call_Init hi2c) s = Some (LCD_Init hi2c s)"
| "lcd_run fmt Call_Clear s = Some (LCD_Clear s)"
| "lcd_run fmt (Call_SetCursor row col) s = Some (LCD_SetCursor row col s)"
| "lcd_run fmt (Call_PrintString str) s = Some (LCD_PrintString str s)"
| "lcd_run fmt (Call_PrintInt num) s = Some (LCD_PrintInt num s)"
| "lcd_run fmt (Call_PrintFloat num decimals) s = LCD_PrintFloat fmt num decimals s"
| "lcd_run fmt (Call_CreateChar location charmap) s = Some (LCD_CreateChar location charmap s)"
| "lcd_run fmt (Call_WriteChar location) s = Some (LCD_WriteChar location s)"
| "lcd_run fmt (Call_Display state) s = Some (LCD_Display state s)"
| "lcd_run fmt (Call_Cursor state) s = Some (LCD_Cursor state s)"
| "lcd_run fmt (Call_Blink state) s = Some (LCD_Blink state s)"
| "lcd_run fmt (Call_SetAddress address) s = Some (LCD_SetAddress address s)"
| "lcd_run fmt Call_ScrollLeft s = Some (LCD_ScrollLeft s)"
| "lcd_run fmt Call_ScrollRight s = Some (LCD_ScrollRight s)"
| "lcd_run fmt Call_Home s = Some (LCD_Home s)"

subsection \<open>The bus framing as the specification words it\<close>

text \<open>
  Following the spec (section 4.1), not the code: \<open>send_nibble\<close> "composes a packet byte =
  nibble | register-select-bit (if is_data) | backlight-bit (always) | enable-bit (set);
  transmits it; [...] clears the enable bit; retransmits", and \<open>send_byte\<close> "calls
  send_nibble with the high nibble then the low nibble, in that order". Both give the list
  of the packet bytes put on the bus. The code is compared with them in
  \<open>tx_WriteNibble\<close> and \<open>tx_WriteByte\<close> below.
\<close>

definition send_nibble :: "uint8_t \<Rightarrow> bool \<Rightarrow> uint8_t list" where
  "send_nibble v is_data =
    (let packet = v OR (if is_data then LCD_RS else 0) OR LCD_BACKLIGHT OR LCD_EN
     in [packet, packet AND NOT LCD_EN])"

definition send_byte :: "uint8_t \<Rightarrow> bool \<Rightarrow> uint8_t list" where
  "send_byte v is_data = send_nibble (v AND 0xF0) is_data @ send_nibble (push_bit 4 v) is_data"

text \<open>
  What a receiver reads back: the data nibble of a packet byte is what is left after
  masking off the register-select, backlight and enable bits; a byte is put together from
  the packet of the first nibble transfer (high nibble) and that of the second (low nibble).
\<close>

definition data_nibble :: "uint8_t \<Rightarrow> uint8_t" where
  "data_nibble packet = packet AND NOT (LCD_RS OR LCD_BACKLIGHT OR LCD_EN)"

definition reconstruct :: "uint8_t \<Rightarrow> uint8_t \<Rightarrow> uint8_t" where
  "reconstruct first second = data_nibble first OR drop_bit 4 (data_nibble second)"

text \<open>Every packet byte transmitted in a trace has the backlight bit set.\<close>

definition backlit :: "hal_event list \<Rightarrow> bool" where
  "backlit es = list_all (\<lambda>b. b AND LCD_BACKLIGHT = LCD_BACKLIGHT) (tx_bytes es)"

text \<open>An initialized driver: the state a successful \<^verbatim>\<open>LCD_Init\<close> leaves at program start.\<close>

definition lcd_ready :: lcd_state where
  "lcd_ready = snd (LCD_Init (Some 0) lcd_state0)"

text \<open>
  \<open>appends s s'\<close>: the trace of \<open>s'\<close> is the trace of \<open>s\<close> followed by events whose
  packet bytes all have the backlight bit set.
\<close>

definition appends :: "lcd_state \<Rightarrow> lcd_state \<Rightarrow> bool" where
  "appends s s' = (\<exists>es. trace s' = trace s @ es \<and> backlit es)"

section \<open>Properties\<close>

subsection \<open>Helper facts: bits, traces, the private helpers\<close>

text \<open>An equation between bytes is settled bit by bit, at each of the eight positions.\<close>

lemma bit_index_cases:
  "n < LENGTH(8) \<Longrightarrow> n = 0 \<or> n = 1 \<or> n = 2 \<or> n = 3 \<or> n = 4 \<or> n = 5 \<or> n = 6 \<or> n = (7::nat)"
  by simp arith

lemma tx_bytes_append [simp]: "tx_bytes (xs @ ys) = tx_bytes xs @ tx_bytes ys"
  by (induction xs rule: tx_bytes.induct) simp_all

lemma hi2c_lcd_WriteNibble [simp]: "hi2c_lcd (LCD_WriteNibble d rs s) = hi2c_lcd s"
  by (simp add: LCD_WriteNibble_def HAL_I2C_Master_Transmit_def HAL_Delay_def Let_def)

lemma lcd_addr_WriteNibble [simp]: "lcd_addr (LCD_WriteNibble d rs s) = lcd_addr s"
  by (simp add: LCD_WriteNibble_def HAL_I2C_Master_Transmit_def HAL_Delay_def Let_def)

text \<open>
  The code against the spec's framing: \<^verbatim>\<open>LCD_WriteNibble\<close> transmits the two packets of
  \<open>send_nibble\<close>, \<^verbatim>\<open>LCD_WriteByte\<close> the four of \<open>send_byte\<close>.
\<close>

lemma tx_WriteNibble:
  "tx_bytes (trace (LCD_WriteNibble d rs s)) = tx_bytes (trace s) @ send_nibble d (rs \<noteq> 0)"
  by (simp add: LCD_WriteNibble_def HAL_I2C_Master_Transmit_def HAL_Delay_def Let_def
      send_nibble_def or.assoc)

lemma hi2c_lcd_WriteByte [simp]: "hi2c_lcd (LCD_WriteByte d rs s) = hi2c_lcd s"
  by (simp add: LCD_WriteByte_def Let_def)

lemma lcd_addr_WriteByte [simp]: "lcd_addr (LCD_WriteByte d rs s) = lcd_addr s"
  by (simp add: LCD_WriteByte_def Let_def)

lemma push_bit_4_mask: "push_bit 4 (d::uint8_t) AND 0xF0 = push_bit 4 d"
  apply (rule bit_word_eqI)
  apply (drule bit_index_cases)
  apply (auto simp add: bit_simps)
  done

lemma tx_WriteByte:
  "tx_bytes (trace (LCD_WriteByte d rs s)) = tx_bytes (trace s) @ send_byte d (rs \<noteq> 0)"
  by (simp add: LCD_WriteByte_def Let_def tx_WriteNibble send_byte_def push_bit_4_mask)

lemma tx_WriteCommand:
  "tx_bytes (trace (LCD_WriteCommand c s)) = tx_bytes (trace s) @ send_byte c False"
  by (simp add: LCD_WriteCommand_def tx_WriteByte)

lemma tx_WriteData:
  "tx_bytes (trace (LCD_WriteData d s)) = tx_bytes (trace s) @ send_byte d True"
  by (simp add: LCD_WriteData_def tx_WriteByte)

lemma hi2c_lcd_WriteCommand [simp]: "hi2c_lcd (LCD_WriteCommand c s) = hi2c_lcd s"
  by (simp add: LCD_WriteCommand_def)

lemma hi2c_lcd_WriteData [simp]: "hi2c_lcd (LCD_WriteData c s) = hi2c_lcd s"
  by (simp add: LCD_WriteData_def)

lemma tx_HAL_Delay [simp]: "tx_bytes (trace (HAL_Delay ms s)) = tx_bytes (trace s)"
  by (simp add: HAL_Delay_def)

lemma hi2c_lcd_HAL_Delay [simp]: "hi2c_lcd (HAL_Delay ms s) = hi2c_lcd s"
  by (simp add: HAL_Delay_def)

lemma length_send_byte: "length (send_byte v is_data) = 4"
  by (simp add: send_byte_def send_nibble_def Let_def)

lemma clamp_row: "(if (row::uint8_t) \<ge> 4 then 3 else row) = min row 3"
  by (simp add: min_def word_le_nat_alt)

lemma clamp_col: "(if (col::uint8_t) \<ge> 20 then 19 else col) = min col 19"
  by (simp add: min_def word_le_nat_alt)

lemma hi2c_lcd_ready [simp]: "hi2c_lcd lcd_ready = Some 0"
  by (simp add: lcd_ready_def LCD_Init_def Let_def)

lemma reconstruct_en_high:
  "reconstruct ((b AND 0xF0) OR c OR 0x08 OR 0x04) (push_bit 4 b OR c OR 0x08 OR 0x04) = b"
  if "c = 0 \<or> c = 1"
  using that
  apply (simp add: reconstruct_def data_nibble_def)
  apply (rule bit_word_eqI)
  apply (drule bit_index_cases)
  apply (auto simp add: bit_simps)
  done

lemma reconstruct_en_low:
  "reconstruct (((b AND 0xF0) OR c OR 0x08 OR 0x04) AND NOT 0x04)
               ((push_bit 4 b OR c OR 0x08 OR 0x04) AND NOT 0x04) = b"
  if "c = 0 \<or> c = 1"
  using that
  apply (simp add: reconstruct_def data_nibble_def)
  apply (rule bit_word_eqI)
  apply (drule bit_index_cases)
  apply (auto simp add: bit_simps)
  done

subsection \<open>Calls before initialization\<close>

text \<open>
  Claim C1. While the transport handle is unbound (\<^verbatim>\<open>hi2c_lcd == NULL\<close>), each of Clear,
  SetCursor, PrintString, PrintInt, PrintFloat, CreateChar, WriteChar, Display, Cursor,
  Blink, ScrollLeft, ScrollRight and Home returns \<open>LCD_NOT_INITIALIZED\<close> and leaves the
  state as it was, trace included: no bus write is issued.
\<close>

theorem uninitialized_calls_rejected:
  assumes "hi2c_lcd s = NULL"
  shows "LCD_Clear s = (LCD_NOT_INITIALIZED, s)
       \<and> LCD_SetCursor row col s = (LCD_NOT_INITIALIZED, s)
       \<and> LCD_PrintString str s = (LCD_NOT_INITIALIZED, s)
       \<and> LCD_PrintInt num s = (LCD_NOT_INITIALIZED, s)
       \<and> LCD_PrintFloat fmt x decimals s = Some (LCD_NOT_INITIALIZED, s)
       \<and> LCD_CreateChar location charmap s = (LCD_NOT_INITIALIZED, s)
       \<and> LCD_WriteChar location s = (LCD_NOT_INITIALIZED, s)
       \<and> LCD_Display state s = (LCD_NOT_INITIALIZED, s)
       \<and> LCD_Cursor state s = (LCD_NOT_INITIALIZED, s)
       \<and> LCD_Blink state s = (LCD_NOT_INITIALIZED, s)
       \<and> LCD_ScrollLeft s = (LCD_NOT_INITIALIZED, s)
       \<and> LCD_ScrollRight s = (LCD_NOT_INITIALIZED, s)
       \<and> LCD_Home s = (LCD_NOT_INITIALIZED, s)"
  using assms
  by (simp add: LCD_Clear_def LCD_SetCursor_def LCD_PrintString_def LCD_PrintInt_def
      LCD_PrintFloat_def LCD_CreateChar_def LCD_WriteChar_def LCD_Display_def LCD_Cursor_def
      LCD_Blink_def LCD_ScrollLeft_def LCD_ScrollRight_def LCD_Home_def)

theorem uninitialized_calls_rejected_witness:
  "hi2c_lcd lcd_state0 = NULL
   \<and> LCD_Clear lcd_state0 = (LCD_NOT_INITIALIZED, lcd_state0)
   \<and> LCD_SetCursor 1 2 lcd_state0 = (LCD_NOT_INITIALIZED, lcd_state0)
   \<and> LCD_PrintString (Some ''AB'') lcd_state0 = (LCD_NOT_INITIALIZED, lcd_state0)
   \<and> LCD_PrintInt (- 42) lcd_state0 = (LCD_NOT_INITIALIZED, lcd_state0)
   \<and> LCD_PrintFloat (\<lambda>d (x::int). ''3.14'') 3 2 lcd_state0 = Some (LCD_NOT_INITIALIZED, lcd_state0)
   \<and> LCD_CreateChar 3 [0, 1, 2, 3, 4, 5, 6, 7] lcd_state0 = (LCD_NOT_INITIALIZED, lcd_state0)
   \<and> LCD_WriteChar 3 lcd_state0 = (LCD_NOT_INITIALIZED, lcd_state0)
   \<and> LCD_Display 1 lcd_state0 = (LCD_NOT_INITIALIZED, lcd_state0)
   \<and> LCD_Cursor 1 lcd_state0 = (LCD_NOT_INITIALIZED, lcd_state0)
   \<and> LCD_Blink 1 lcd_state0 = (LCD_NOT_INITIALIZED, lcd_state0)
   \<and> LCD_ScrollLeft lcd_state0 = (LCD_NOT_INITIALIZED, lcd_state0)
   \<and> LCD_ScrollRight lcd_state0 = (LCD_NOT_INITIALIZED, lcd_state0)
   \<and> LCD_Home lcd_state0 = (LCD_NOT_INITIALIZED, lcd_state0)"
proof -
  have h: "hi2c_lcd lcd_state0 = NULL"
    by (simp add: lcd_state0_def)
  show ?thesis
    using h uninitialized_calls_rejected [OF h, where row = 1 and col = 2 and str = "Some ''AB''"
        and num = "- 42" and fmt = "\<lambda>d (x::int). ''3.14''" and x = 3 and decimals = 2
        and location = 3 and charmap = "[0, 1, 2, 3, 4, 5, 6, 7]" and state = 1]
    by simp
qed

subsection \<open>Cursor addressing\<close>

text \<open>
  Claim C2. In the initialized state \<^verbatim>\<open>LCD_SetCursor(row, col)\<close> returns \<open>LCD_OK\<close> and
  puts on the bus the frame of the one command byte \<open>0x80 | (col' + offset[row'])\<close>, with
  offset = {0x00, 0x40, 0x14, 0x54}, row' = min(row, 3) and col' = min(col, 19); row 5 uses
  row 3 (offset 0x54) and column 25 uses column 19.
\<close>

theorem SetCursor_command:
  assumes "hi2c_lcd s \<noteq> NULL"
  shows "fst (LCD_SetCursor row col s) = LCD_OK
       \<and> tx_bytes (trace (snd (LCD_SetCursor row col s))) =
           tx_bytes (trace s) @
           send_byte (0x80 OR (min col 19 + [0x00, 0x40, 0x14, 0x54] ! unat (min row 3))) False
       \<and> tx_bytes (trace (snd (LCD_SetCursor 5 col s))) =
           tx_bytes (trace s) @ send_byte (0x80 OR (min col 19 + 0x54)) False
       \<and> tx_bytes (trace (snd (LCD_SetCursor row 25 s))) =
           tx_bytes (trace s) @
           send_byte (0x80 OR (19 + [0x00, 0x40, 0x14, 0x54] ! unat (min row 3))) False"
  by (simp add: assms LCD_SetCursor_def Let_def tx_WriteCommand clamp_row clamp_col row_offsets_def)

theorem SetCursor_command_witness:
  "hi2c_lcd lcd_ready \<noteq> NULL
   \<and> fst (LCD_SetCursor 5 25 lcd_ready) = LCD_OK
   \<and> tx_bytes (trace (snd (LCD_SetCursor 5 25 lcd_ready))) =
       tx_bytes (trace lcd_ready) @ [0xEC, 0xE8, 0x7C, 0x78]"
proof -
  have h: "hi2c_lcd lcd_ready \<noteq> NULL"
    by simp
  show ?thesis
    using h SetCursor_command [OF h, of 5 25]
    by (simp add: send_byte_def send_nibble_def)
qed

subsection \<open>Nibble framing\<close>

text \<open>
  Claim C3. \<^verbatim>\<open>LCD_WriteByte\<close> puts four packet bytes on the bus for a byte \<open>b\<close>, two per
  nibble transfer (enable high, then enable low). Masking the register-select, backlight
  and enable bits off a packet of the first transfer and off one of the second, and taking
  the first as high nibble and the second as low nibble, gives \<open>b\<close> back.
\<close>

theorem WriteByte_round_trip:
  "\<exists>p1 p2 p3 p4.
     tx_bytes (trace (LCD_WriteByte b rs s)) = tx_bytes (trace s) @ [p1, p2, p3, p4]
     \<and> reconstruct p1 p3 = b \<and> reconstruct p2 p4 = b"
proof -
  define c :: uint8_t where "c = (if rs \<noteq> 0 then 1 else 0)"
  have c: "c = 0 \<or> c = 1"
    by (simp add: c_def)
  have "tx_bytes (trace (LCD_WriteByte b rs s)) = tx_bytes (trace s) @
      [(b AND 0xF0) OR c OR 0x08 OR 0x04, ((b AND 0xF0) OR c OR 0x08 OR 0x04) AND NOT 0x04,
       push_bit 4 b OR c OR 0x08 OR 0x04, (push_bit 4 b OR c OR 0x08 OR 0x04) AND NOT 0x04]"
    by (simp add: tx_WriteByte send_byte_def send_nibble_def Let_def c_def)
  with reconstruct_en_high [OF c, of b] reconstruct_en_low [OF c, of b] show ?thesis
    by blast
qed

subsection \<open>Display control\<close>

text \<open>
  Claim C7. In the initialized state \<^verbatim>\<open>LCD_Cursor(state)\<close> and \<^verbatim>\<open>LCD_Blink(state)\<close> send
  the display-control command (0x08) with the display-on bit (0x04) set and the cursor bit
  (0x02), respectively the blink bit (0x01), set exactly when \<open>state\<close> is nonzero;
  \<^verbatim>\<open>LCD_Display(0)\<close> sends 0x08 alone and \<^verbatim>\<open>LCD_Display(nonzero)\<close> sends 0x08 | 0x04.
\<close>

theorem display_control_commands:
  assumes "hi2c_lcd s \<noteq> NULL"
  shows "fst (LCD_Cursor state s) = LCD_OK
       \<and> tx_bytes (trace (snd (LCD_Cursor state s))) =
           tx_bytes (trace s) @ send_byte (0x08 OR 0x04 OR (if state \<noteq> 0 then 0x02 else 0)) False
       \<and> fst (LCD_Blink state s) = LCD_OK
       \<and> tx_bytes (trace (snd (LCD_Blink state s))) =
           tx_bytes (trace s) @ send_byte (0x08 OR 0x04 OR (if state \<noteq> 0 then 0x01 else 0)) False
       \<and> fst (LCD_Display state s) = LCD_OK
       \<and> tx_bytes (trace (snd (LCD_Display state s))) =
           tx_bytes (trace s) @ send_byte (if state \<noteq> 0 then 0x08 OR 0x04 else 0x08) False"
  by (simp add: assms LCD_Cursor_def LCD_Blink_def LCD_Display_def Let_def tx_WriteCommand)

theorem display_control_commands_witness:
  "hi2c_lcd lcd_ready \<noteq> NULL
   \<and> tx_bytes (trace (snd (LCD_Cursor 1 lcd_ready))) = tx_bytes (trace lcd_ready) @ [0x0C, 0x08, 0xEC, 0xE8]
   \<and> tx_bytes (trace (snd (LCD_Blink 0 lcd_ready))) = tx_bytes (trace lcd_ready) @ [0x0C, 0x08, 0xCC, 0xC8]
   \<and> tx_bytes (trace (snd (LCD_Display 0 lcd_ready))) = tx_bytes (trace lcd_ready) @ [0x0C, 0x08, 0x8C, 0x88]"
proof -
  have h: "hi2c_lcd lcd_ready \<noteq> NULL"
    by simp
  show ?thesis
    using h display_control_commands [OF h, of 1] display_control_commands [OF h, of 0]
    by (simp add: send_byte_def send_nibble_def)
qed

subsection \<open>Initialization with a null handle\<close>

text \<open>
  Claim C8. \<^verbatim>\<open>LCD_Init(NULL)\<close> returns \<open>LCD_ERROR\<close> and leaves the state as it was (the
  stored handle and the trace with it); a following \<^verbatim>\<open>LCD_Init\<close> with a non-null handle
  returns \<open>LCD_OK\<close> and binds that handle.
\<close>

theorem Init_null_then_valid:
  assumes "hi2c \<noteq> NULL"
  shows "LCD_Init NULL s = (LCD_ERROR, s)
       \<and> fst (LCD_Init hi2c (snd (LCD_Init NULL s))) = LCD_OK
       \<and> hi2c_lcd (snd (LCD_Init hi2c (snd (LCD_Init NULL s)))) = hi2c"
  by (simp add: assms LCD_Init_def Let_def)

theorem Init_null_then_valid_witness:
  "Some 0 \<noteq> (NULL :: I2C_HandleTypeDef_ptr)
   \<and> LCD_Init NULL lcd_state0 = (LCD_ERROR, lcd_state0)
   \<and> hi2c_lcd (snd (LCD_Init NULL lcd_state0)) = NULL
   \<and> trace (snd (LCD_Init NULL lcd_state0)) = []
   \<and> fst (LCD_Init (Some 0) (snd (LCD_Init NULL lcd_state0))) = LCD_OK
   \<and> hi2c_lcd (snd (LCD_Init (Some 0) (snd (LCD_Init NULL lcd_state0)))) = Some 0"
proof -
  have h: "Some 0 \<noteq> (NULL :: I2C_HandleTypeDef_ptr)"
    by simp
  show ?thesis
    using Init_null_then_valid [OF h, of lcd_state0]
    by (auto simp add: lcd_state0_def)
qed

subsection \<open>Custom glyphs\<close>

text \<open>The glyph loop transmits the data frames of \<open>charmap[i..7]\<close>, in order.\<close>

lemma tx_CreateChar_loop:
  "i \<le> 8 \<Longrightarrow> length charmap = 8 \<Longrightarrow>
   tx_bytes (trace (LCD_CreateChar_loop i charmap s)) =
     tx_bytes (trace s) @ concat (map (\<lambda>b. send_byte b True) (drop i charmap))"
proof (induction i charmap s rule: LCD_CreateChar_loop.induct)
  case (1 i charmap s)
  show ?case
  proof (cases "i < 8")
    case True
    with 1 have "tx_bytes (trace (LCD_CreateChar_loop (i + 1) charmap (LCD_WriteData (charmap ! i) s))) =
        tx_bytes (trace (LCD_WriteData (charmap ! i) s)) @
        concat (map (\<lambda>b. send_byte b True) (drop (i + 1) charmap))"
      by simp
    moreover from True 1(3) have "drop i charmap = charmap ! i # drop (i + 1) charmap"
      by (simp add: Cons_nth_drop_Suc)
    ultimately show ?thesis
      using True by (subst LCD_CreateChar_loop.simps) (simp add: tx_WriteData)
  next
    case False
    with 1(2,3) show ?thesis
      by (subst LCD_CreateChar_loop.simps) simp
  qed
qed

lemma hi2c_lcd_CreateChar_loop [simp]: "hi2c_lcd (LCD_CreateChar_loop i charmap s) = hi2c_lcd s"
proof (induction i charmap s rule: LCD_CreateChar_loop.induct)
  case (1 i charmap s)
  then show ?case
    by (subst LCD_CreateChar_loop.simps) simp
qed

lemma length_data_frames: "length (concat (map (\<lambda>b. send_byte b True) xs)) = 4 * length xs"
  by (induction xs) (simp_all add: length_send_byte)

lemma tx_CreateChar:
  assumes "hi2c_lcd s \<noteq> NULL" and "location \<le> 7" and "length charmap = 8"
  shows "tx_bytes (trace (snd (LCD_CreateChar location charmap s))) =
     tx_bytes (trace s) @ send_byte (0x40 OR push_bit 3 location) False @
     concat (map (\<lambda>b. send_byte b True) charmap)"
proof -
  from assms(2) have "\<not> location > 7"
    by (simp add: not_less)
  with assms(1,3) show ?thesis
    by (simp add: assms(1) LCD_CreateChar_def Let_def tx_CreateChar_loop tx_WriteCommand)
qed

text \<open>
  Claim C4, amended. In the initialized state \<^verbatim>\<open>LCD_CreateChar(8, glyph)\<close> returns
  \<open>LCD_ERROR\<close> and leaves the state as it was (no bus write), while
  \<^verbatim>\<open>LCD_CreateChar(3, glyph)\<close> returns \<open>LCD_OK\<close> and puts on the bus the frame of the
  set-CGRAM-address command \<open>0x40 | (3 << 3)\<close> followed by the frames of the 8 glyph bytes
  as data, in order. A frame is two nibble transfers of two bus writes each (enable high,
  then enable low), so the 9 bytes take 36 bus writes.
\<close>

theorem CreateChar_frames:
  assumes "hi2c_lcd s \<noteq> NULL" and "length charmap = 8"
  shows "LCD_CreateChar 8 charmap s = (LCD_ERROR, s)
       \<and> fst (LCD_CreateChar 3 charmap s) = LCD_OK
       \<and> tx_bytes (trace (snd (LCD_CreateChar 3 charmap s))) =
           tx_bytes (trace s) @ send_byte (0x40 OR push_bit 3 3) False @
           concat (map (\<lambda>b. send_byte b True) charmap)
       \<and> length (send_byte (0x40 OR push_bit 3 3) False @
                  concat (map (\<lambda>b. send_byte b True) charmap)) = 36"
proof -
  have "LCD_CreateChar 8 charmap s = (LCD_ERROR, s)"
    by (simp add: assms LCD_CreateChar_def)
  moreover have "fst (LCD_CreateChar 3 charmap s) = LCD_OK"
    by (simp add: assms LCD_CreateChar_def Let_def)
  moreover note tx_CreateChar [OF assms(1) _ assms(2), of 3]
  moreover have "length (send_byte (0x40 OR push_bit 3 3) False @
      concat (map (\<lambda>b. send_byte b True) charmap)) = 36"
    by (simp add: length_send_byte length_data_frames assms del: push_bit_numeral)
  ultimately show ?thesis
    by simp
qed

theorem CreateChar_frames_witness:
  "hi2c_lcd lcd_ready \<noteq> NULL
   \<and> length [0x00, 0x0A, 0x1F, 0x1F, 0x0E, 0x04, 0x00, 0x00 :: uint8_t] = 8
   \<and> LCD_CreateChar 8 [0x00, 0x0A, 0x1F, 0x1F, 0x0E, 0x04, 0x00, 0x00] lcd_ready = (LCD_ERROR, lcd_ready)
   \<and> fst (LCD_CreateChar 3 [0x00, 0x0A, 0x1F, 0x1F, 0x0E, 0x04, 0x00, 0x00] lcd_ready) = LCD_OK
   \<and> tx_bytes (trace (snd (LCD_CreateChar 3 [0x00, 0x0A, 0x1F, 0x1F, 0x0E, 0x04, 0x00, 0x00] lcd_ready))) =
       tx_bytes (trace lcd_ready) @
       [0x5C, 0x58, 0x8C, 0x88,
        0x0D, 0x09, 0x0D, 0x09,  0x0D, 0x09, 0xAD, 0xA9,  0x1D, 0x19, 0xFD, 0xF9,  0x1D, 0x19, 0xFD, 0xF9,
        0x0D, 0x09, 0xED, 0xE9,  0x0D, 0x09, 0x4D, 0x49,  0x0D, 0x09, 0x0D, 0x09,  0x0D, 0x09, 0x0D, 0x09]"
proof -
  have h: "hi2c_lcd lcd_ready \<noteq> NULL"
    by simp
  have l: "length [0x00, 0x0A, 0x1F, 0x1F, 0x0E, 0x04, 0x00, 0x00 :: uint8_t] = 8"
    by simp
  show ?thesis
    using h CreateChar_frames [OF h l]
    by (simp add: send_byte_def send_nibble_def)
qed

text \<open>
  Claim C4 as stated counts 18 bus transactions for \<^verbatim>\<open>LCD_CreateChar(3, glyph)\<close>. On an
  initialized driver and a heart-shaped glyph the call appends 36 packet bytes to the bus
  traffic, not 18.
\<close>

theorem CreateChar_18_transactions_counterexample:
  "fst (LCD_CreateChar 3 [0x00, 0x0A, 0x1F, 0x1F, 0x0E, 0x04, 0x00, 0x00] lcd_ready) = LCD_OK
   \<and> length (tx_bytes (trace (snd (LCD_CreateChar 3 [0x00, 0x0A, 0x1F, 0x1F, 0x0E, 0x04, 0x00, 0x00] lcd_ready))))
       = length (tx_bytes (trace lcd_ready)) + 36
   \<and> length (tx_bytes (trace (snd (LCD_CreateChar 3 [0x00, 0x0A, 0x1F, 0x1F, 0x0E, 0x04, 0x00, 0x00] lcd_ready))))
       \<noteq> length (tx_bytes (trace lcd_ready)) + 18"
proof -
  have "tx_bytes (trace (snd (LCD_CreateChar 3 [0x00, 0x0A, 0x1F, 0x1F, 0x0E, 0x04, 0x00, 0x00] lcd_ready))) =
      tx_bytes (trace lcd_ready) @ send_byte (0x40 OR push_bit 3 3) False @
      concat (map (\<lambda>b. send_byte b True) [0x00, 0x0A, 0x1F, 0x1F, 0x0E, 0x04, 0x00, 0x00])"
    by (rule tx_CreateChar) simp_all
  then show ?thesis
    by (simp add: length_send_byte LCD_CreateChar_def Let_def del: push_bit_numeral)
qed

subsection \<open>Printing text and integers\<close>

lemma tx_PrintString_loop_AB:
  "tx_bytes (trace (LCD_PrintString_loop ''AB'' s)) =
     tx_bytes (trace s) @ send_byte 0x41 True @ send_byte 0x42 True"
  by (simp add: tx_WriteData)

lemma tx_PrintString_loop_minus_42:
  "tx_bytes (trace (LCD_PrintString_loop ''-42'' s)) =
     tx_bytes (trace s) @ send_byte 0x2D True @ send_byte 0x34 True @ send_byte 0x32 True"
  by (simp add: tx_WriteData)

text \<open>
  \<^verbatim>\<open>LCD_PrintInt\<close> formats into \<^verbatim>\<open>char buffer[12]\<close>: the text of a 32-bit integer has at
  most 11 characters, so it fits with its terminating NUL.
\<close>

lemma utoa_length: "0 < k \<Longrightarrow> n < 10 ^ k \<Longrightarrow> length (utoa n) \<le> k"
proof (induction n arbitrary: k rule: utoa.induct)
  case (1 n)
  show ?case
  proof (cases "n < 10")
    case True
    with 1(2) show ?thesis
      by (subst utoa.simps) simp
  next
    case False
    with 1(2,3) have k: "0 < k - 1"
      by (cases k; cases "k - 1") auto
    from 1(2,3) have "n div 10 < 10 ^ (k - 1)"
      by (cases k) (auto simp add: less_mult_imp_div_less mult.commute)
    with 1(1) [OF False k] have "length (utoa (n div 10)) \<le> k - 1"
      by simp
    with False k show ?thesis
      by (subst utoa.simps) simp
  qed
qed

lemma itoa_fits_buffer: "length (itoa num) < 12"
proof -
  have lo: "- (2 ^ 31) \<le> sint num" and hi: "sint num < 2 ^ 31"
    using sint_ge [of num] sint_lt [of num] by simp_all
  have "length (utoa (nat (- sint num))) \<le> 10"
    using lo by (intro utoa_length) simp_all
  moreover have "length (utoa (nat (sint num))) \<le> 10"
    using hi by (intro utoa_length) simp_all
  ultimately show ?thesis
    by (simp add: itoa_def)
qed

lemma itoa_minus_42: "itoa (- 42) = ''-42''"
  by code_simp

text \<open>
  Claim C5, amended. In the initialized state \<^verbatim>\<open>LCD_PrintString("AB")\<close> returns \<open>LCD_OK\<close>
  and puts on the bus the data frame of 'A' (0x41) and then the data frame of 'B' (0x42):
  2 data-byte write sequences, each of two nibble transfers of two bus writes, 8 bus writes
  in all.
\<close>

theorem PrintString_AB_frames:
  assumes "hi2c_lcd s \<noteq> NULL"
  shows "fst (LCD_PrintString (Some ''AB'') s) = LCD_OK
       \<and> tx_bytes (trace (snd (LCD_PrintString (Some ''AB'') s))) =
           tx_bytes (trace s) @ send_byte 0x41 True @ send_byte 0x42 True
       \<and> length (send_byte 0x41 True @ send_byte 0x42 True) = 8"
  by (simp add: assms LCD_PrintString_def tx_PrintString_loop_AB length_send_byte del: LCD_PrintString_loop.simps)

theorem PrintString_AB_frames_witness:
  "hi2c_lcd lcd_ready \<noteq> NULL
   \<and> fst (LCD_PrintString (Some ''AB'') lcd_ready) = LCD_OK
   \<and> tx_bytes (trace (snd (LCD_PrintString (Some ''AB'') lcd_ready))) =
       tx_bytes (trace lcd_ready) @ [0x4D, 0x49, 0x1D, 0x19, 0x4D, 0x49, 0x2D, 0x29]"
proof -
  have h: "hi2c_lcd lcd_ready \<noteq> NULL"
    by simp
  show ?thesis
    using h PrintString_AB_frames [OF h]
    by (simp add: send_byte_def send_nibble_def)
qed

text \<open>
  Claim C5 as stated counts 4 bus transactions for \<^verbatim>\<open>LCD_PrintString("AB")\<close>. On an
  initialized driver the call appends 8 packet bytes to the bus traffic, not 4.
\<close>

theorem PrintString_AB_4_transactions_counterexample:
  "fst (LCD_PrintString (Some ''AB'') lcd_ready) = LCD_OK
   \<and> length (tx_bytes (trace (snd (LCD_PrintString (Some ''AB'') lcd_ready))))
       = length (tx_bytes (trace lcd_ready)) + 8
   \<and> length (tx_bytes (trace (snd (LCD_PrintString (Some ''AB'') lcd_ready))))
       \<noteq> length (tx_bytes (trace lcd_ready)) + 4"
  by (simp add: LCD_PrintString_def tx_PrintString_loop_AB length_send_byte del: LCD_PrintString_loop.simps)

text \<open>
  Claim C6. In the initialized state \<^verbatim>\<open>LCD_PrintInt(-42)\<close> gives the same status and the
  same state, bus traffic included, as \<^verbatim>\<open>LCD_PrintString("-42")\<close>: the data frames of
  '-', '4' and '2'. For every \<open>num\<close>, \<^verbatim>\<open>LCD_PrintInt\<close> forwards the decimal text of
  \<open>num\<close> to \<^verbatim>\<open>LCD_PrintString\<close>.
\<close>

theorem PrintInt_minus_42:
  assumes "hi2c_lcd s \<noteq> NULL"
  shows "LCD_PrintInt (- 42) s = LCD_PrintString (Some ''-42'') s
       \<and> LCD_PrintInt num s = LCD_PrintString (Some (itoa num)) s
       \<and> fst (LCD_PrintInt (- 42) s) = LCD_OK
       \<and> tx_bytes (trace (snd (LCD_PrintInt (- 42) s))) =
           tx_bytes (trace s) @ send_byte 0x2D True @ send_byte 0x34 True @ send_byte 0x32 True"
  by (simp add: assms LCD_PrintInt_def Let_def itoa_minus_42 LCD_PrintString_def
      tx_PrintString_loop_minus_42 del: LCD_PrintString_loop.simps)

theorem PrintInt_minus_42_witness:
  "hi2c_lcd lcd_ready \<noteq> NULL
   \<and> LCD_PrintInt (- 42) lcd_ready = LCD_PrintString (Some ''-42'') lcd_ready
   \<and> fst (LCD_PrintInt (- 42) lcd_ready) = LCD_OK
   \<and> tx_bytes (trace (snd (LCD_PrintInt (- 42) lcd_ready))) =
       tx_bytes (trace lcd_ready) @
       [0x2D, 0x29, 0xDD, 0xD9, 0x3D, 0x39, 0x4D, 0x49, 0x3D, 0x39, 0x2D, 0x29]"
proof -
  have h: "hi2c_lcd lcd_ready \<noteq> NULL"
    by simp
  have e: "send_byte 0x2D True @ send_byte 0x34 True @ send_byte 0x32 True =
      [0x2D, 0x29, 0xDD, 0xD9, 0x3D, 0x39, 0x4D, 0x49, 0x3D, 0x39, 0x2D, 0x29]"
    by (simp add: send_byte_def send_nibble_def)
  show ?thesis
    using h PrintInt_minus_42 [OF h, of 0] unfolding e by blast
qed

subsection \<open>Invariants of the whole operation surface\<close>

text \<open>
  Each private helper, and so each public operation, only appends to the trace, and what it
  appends has the backlight bit set: \<^verbatim>\<open>LCD_WriteNibble\<close> is the only function that
  transmits, and it sets the bit in both of its packets.
\<close>

lemma backlit_Nil [simp]: "backlit []"
  by (simp add: backlit_def)

lemma backlit_append [simp]: "backlit (xs @ ys) \<longleftrightarrow> backlit xs \<and> backlit ys"
  by (simp add: backlit_def)

lemma appends_refl [simp]: "appends s s"
  by (simp add: appends_def)

lemma appends_trans: "appends s t \<Longrightarrow> appends t u \<Longrightarrow> appends s u"
  by (auto simp add: appends_def)

lemma backlit_WriteNibble:
  "\<exists>es. trace (LCD_WriteNibble d rs s) = trace s @ es \<and> backlit es"
proof -
  have "((x OR 0x08) OR 0x04) AND 0x08 = 0x08 \<and> (((x OR 0x08) OR 0x04) AND NOT 0x04) AND 0x08 = 0x08"
    for x :: uint8_t
    apply (rule conjI)
     apply (rule bit_word_eqI)
     apply (drule bit_index_cases)
     apply (auto simp add: bit_simps)[1]
    apply (rule bit_word_eqI)
    apply (drule bit_index_cases)
    apply (auto simp add: bit_simps)
    done
  then show ?thesis
    by (simp add: LCD_WriteNibble_def HAL_I2C_Master_Transmit_def HAL_Delay_def Let_def backlit_def)
qed

lemma appends_WriteNibble: "appends s t \<Longrightarrow> appends s (LCD_WriteNibble d rs t)"
  using backlit_WriteNibble [of d rs t] by (auto simp add: appends_def)

lemma appends_Delay: "appends s t \<Longrightarrow> appends s (HAL_Delay ms t)"
  by (auto simp add: appends_def HAL_Delay_def backlit_def)

lemma appends_hi2c_lcd_update: "appends s t \<Longrightarrow> appends s (t\<lparr> hi2c_lcd := h \<rparr>)"
  by (simp add: appends_def)

lemma appends_lcd_addr_update: "appends s t \<Longrightarrow> appends s (t\<lparr> lcd_addr := a \<rparr>)"
  by (simp add: appends_def)

lemma appends_WriteByte: "appends s t \<Longrightarrow> appends s (LCD_WriteByte d rs t)"
  by (simp add: LCD_WriteByte_def Let_def appends_WriteNibble)

lemma appends_WriteCommand: "appends s t \<Longrightarrow> appends s (LCD_WriteCommand c t)"
  by (simp add: LCD_WriteCommand_def appends_WriteByte)

lemma appends_WriteData: "appends s t \<Longrightarrow> appends s (LCD_WriteData d t)"
  by (simp add: LCD_WriteData_def appends_WriteByte)

lemma appends_PrintString_loop: "appends s t \<Longrightarrow> appends s (LCD_PrintString_loop cs t)"
  by (induction cs arbitrary: t) (simp_all add: appends_WriteData)

lemma appends_CreateChar_loop: "appends s t \<Longrightarrow> appends s (LCD_CreateChar_loop i charmap t)"
proof (induction i charmap t rule: LCD_CreateChar_loop.induct)
  case (1 i charmap t)
  show ?case
  proof (cases "i < 8")
    case True
    with 1 show ?thesis
      by (subst LCD_CreateChar_loop.simps) (simp add: appends_WriteData)
  next
    case False
    with 1 show ?thesis
      by (subst LCD_CreateChar_loop.simps) simp
  qed
qed

lemmas appends_steps =
  appends_WriteNibble appends_Delay appends_hi2c_lcd_update appends_lcd_addr_update
  appends_WriteCommand appends_WriteData appends_PrintString_loop appends_CreateChar_loop

lemma appends_PrintString: "appends s (snd (LCD_PrintString str s))"
  by (simp add: LCD_PrintString_def appends_steps split: option.split)

lemma appends_run: "lcd_run fmt c s = Some (st, s') \<Longrightarrow> appends s s'"
proof (cases c)
  case (Call_Init hi2c)
  assume "lcd_run fmt c s = Some (st, s')"
  with Call_Init show ?thesis
    by (auto simp add: LCD_Init_def Let_def appends_steps split: if_splits)
next
  case Call_Clear
  assume "lcd_run fmt c s = Some (st, s')"
  with Call_Clear show ?thesis
    by (auto simp add: LCD_Clear_def Let_def appends_steps split: if_splits)
next
  case (Call_SetCursor row col)
  assume "lcd_run fmt c s = Some (st, s')"
  with Call_SetCursor show ?thesis
    by (auto simp add: LCD_SetCursor_def Let_def appends_steps split: if_splits)
next
  case (Call_PrintString str)
  assume "lcd_run fmt c s = Some (st, s')"
  with Call_PrintString appends_PrintString [of s str] show ?thesis
    by simp
next
  case (Call_PrintInt num)
  assume "lcd_run fmt c s = Some (st, s')"
  with Call_PrintInt appends_PrintString [of s "Some (itoa num)"] show ?thesis
    by (auto simp add: LCD_PrintInt_def Let_def split: if_splits)
next
  case (Call_PrintFloat num decimals)
  assume "lcd_run fmt c s = Some (st, s')"
  with Call_PrintFloat appends_PrintString [of s "Some (fmt (if decimals > 6 then 6 else decimals) num)"]
  show ?thesis
    by (auto simp add: LCD_PrintFloat_def Let_def split: if_splits)
next
  case (Call_CreateChar location charmap)
  assume "lcd_run fmt c s = Some (st, s')"
  with Call_CreateChar show ?thesis
    by (auto simp add: LCD_CreateChar_def Let_def appends_steps split: if_splits)
next
  case (Call_WriteChar location)
  assume "lcd_run fmt c s = Some (st, s')"
  with Call_WriteChar show ?thesis
    by (auto simp add: LCD_WriteChar_def Let_def appends_steps split: if_splits)
next
  case (Call_Display state)
  assume "lcd_run fmt c s = Some (st, s')"
  with Call_Display show ?thesis
    by (auto simp add: LCD_Display_def Let_def appends_steps split: if_splits)
next
  case (Call_Cursor state)
  assume "lcd_run fmt c s = Some (st, s')"
  with Call_Cursor show ?thesis
    by (auto simp add: LCD_Cursor_def Let_def appends_steps split: if_splits)
next
  case (Call_Blink state)
  assume "lcd_run fmt c s = Some (st, s')"
  with Call_Blink show ?thesis
    by (auto simp add: LCD_Blink_def Let_def appends_steps split: if_splits)
next
  case (Call_SetAddress address)
  assume "lcd_run fmt c s = Some (st, s')"
  with Call_SetAddress show ?thesis
    by (auto simp add: LCD_SetAddress_def appends_steps)
next
  case Call_ScrollLeft
  assume "lcd_run fmt c s = Some (st, s')"
  with Call_ScrollLeft show ?thesis
    by (auto simp add: LCD_ScrollLeft_def appends_steps split: if_splits)
next
  case Call_ScrollRight
  assume "lcd_run fmt c s = Some (st, s')"
  with Call_ScrollRight show ?thesis
    by (auto simp add: LCD_ScrollRight_def appends_steps split: if_splits)
next
  case Call_Home
  assume "lcd_run fmt c s = Some (st, s')"
  with Call_Home show ?thesis
    by (auto simp add: LCD_Home_def Let_def appends_steps split: if_splits)
qed

text \<open>
  Claim C9. Whatever public operation is called, in whatever state, every packet byte it
  transmits has the backlight bit (0x08) set.
\<close>

theorem every_packet_backlit:
  assumes "lcd_run fmt c s = Some (st, s')"
  shows "\<exists>es. trace s' = trace s @ es \<and> (\<forall>b \<in> set (tx_bytes es). b AND LCD_BACKLIGHT = LCD_BACKLIGHT)"
  using appends_run [OF assms] by (simp add: appends_def backlit_def list_all_iff)

theorem every_packet_backlit_witness:
  "lcd_run (\<lambda>d (x::int). ''3.14'') (Call_Init (Some 0)) lcd_state0 = Some (LCD_OK, lcd_ready)
   \<and> (\<exists>es. trace lcd_ready = trace lcd_state0 @ es
         \<and> (\<forall>b \<in> set (tx_bytes es). b AND LCD_BACKLIGHT = LCD_BACKLIGHT))"
proof -
  have h: "lcd_run (\<lambda>d (x::int). ''3.14'') (Call_Init (Some 0)) lcd_state0 = Some (LCD_OK, lcd_ready)"
    by (simp add: lcd_ready_def LCD_Init_def Let_def)
  show ?thesis
    using h every_packet_backlit [OF h] by simp
qed

lemma status_PrintString:
  "fst (LCD_PrintString str s) = LCD_OK \<or> fst (LCD_PrintString str s) = LCD_ERROR
   \<or> fst (LCD_PrintString str s) = LCD_NOT_INITIALIZED"
  by (simp add: LCD_PrintString_def split: option.split)

text \<open>
  Every call returns, except \<^verbatim>\<open>LCD_PrintFloat\<close> on an initialized driver with a text that
  overruns its 20-byte buffer.
\<close>

lemma lcd_run_None_iff:
  "lcd_run fmt c s = None \<longleftrightarrow>
     (\<exists>num decimals. c = Call_PrintFloat num decimals \<and> hi2c_lcd s \<noteq> NULL
        \<and> 20 \<le> length (fmt (if decimals > 6 then 6 else decimals) num))"
  by (cases c) (auto simp add: LCD_PrintFloat_def Let_def)

text \<open>
  Claim C10. Whatever public operation is called, in whatever state, the status it returns
  is \<open>LCD_OK\<close>, \<open>LCD_ERROR\<close> or \<open>LCD_NOT_INITIALIZED\<close>, never \<open>LCD_BUSY\<close> or \<open>LCD_TIMEOUT\<close>.
\<close>

theorem status_never_busy_or_timeout:
  assumes "lcd_run fmt c s = Some (st, s')"
  shows "(st = LCD_OK \<or> st = LCD_ERROR \<or> st = LCD_NOT_INITIALIZED)
       \<and> st \<noteq> LCD_BUSY \<and> st \<noteq> LCD_TIMEOUT"
proof -
  have "st = LCD_OK \<or> st = LCD_ERROR \<or> st = LCD_NOT_INITIALIZED"
  proof (cases c)
    case (Call_PrintString str)
    with assms status_PrintString [of str s] show ?thesis
      by auto
  next
    case (Call_PrintInt num)
    with assms status_PrintString [of "Some (itoa num)" s] show ?thesis
      by (auto simp add: LCD_PrintInt_def Let_def split: if_splits)
  next
    case (Call_PrintFloat num decimals)
    with assms status_PrintString [of "Some (fmt (if decimals > 6 then 6 else decimals) num)" s]
    show ?thesis
      by (auto simp add: LCD_PrintFloat_def Let_def split: if_splits)
  qed (use assms in \<open>auto simp add: LCD_Init_def LCD_Clear_def LCD_SetCursor_def
      LCD_CreateChar_def LCD_WriteChar_def LCD_Display_def LCD_Cursor_def LCD_Blink_def
      LCD_SetAddress_def LCD_ScrollLeft_def LCD_ScrollRight_def LCD_Home_def Let_def
      split: if_splits\<close>)
  then show ?thesis
    by auto
qed

theorem status_never_busy_or_timeout_witness:
  "lcd_run (\<lambda>d (x::int). ''3.14'') (Call_PrintString NULL) lcd_ready = Some (LCD_ERROR, lcd_ready)
   \<and> LCD_ERROR \<noteq> LCD_BUSY \<and> LCD_ERROR \<noteq> LCD_TIMEOUT"
proof -
  have h: "lcd_run (\<lambda>d (x::int). ''3.14'') (Call_PrintString NULL) lcd_ready = Some (LCD_ERROR, lcd_ready)"
    by (simp add: LCD_PrintString_def)
  show ?thesis
    using h status_never_busy_or_timeout [OF h] by simp
qed

end
